theory Spec2Isabelle
  imports Main "HOL-Library.Char_ord" "HOL-Library.List_Lexorder" "HOL-Library.AList"
    "HOL-Library.Sublist"
begin

chapter \<open>git3: an S3 front end over a directory, mirrored into git\<close>

section \<open>The sync worker (internal/git/syncer.go)\<close>

subsection \<open>State\<close>

text \<open>
  The Go struct \<^verbatim>\<open>Syncer\<close>. \<^verbatim>\<open>repo\<close> is a pointer to a go-git repository: \<open>None\<close> is
  the nil pointer. \<^verbatim>\<open>timer\<close> is a pointer to a \<^verbatim>\<open>time.Timer\<close>: \<open>None\<close> is nil, \<open>Some i\<close> is
  the timer the runtime numbered \<open>i\<close>. \<^verbatim>\<open>debounce\<close> is a \<^verbatim>\<open>time.Duration\<close>. The mutex
  \<^verbatim>\<open>mu\<close> has no field here: every method below holds it from its first statement to its
  last, so each method is one atomic step of the model. The field \<^verbatim>\<open>dir\<close> is named
  \<open>sdir\<close>, since the handler has a field of the same name.
\<close>

record 'r Syncer =
  sdir :: string
  repo :: "'r option"
  remote :: string
  branch :: string
  user :: string
  email :: string
  token :: string
  debounce :: int
  timer :: "nat option"

record Config =
  Dir :: string
  Repo :: string
  Branch :: string
  User :: string
  Email :: string
  Token :: string
  Debounce :: int
  PullInterval :: int

text \<open>
  The go-git calls of \<^verbatim>\<open>doSync\<close> and \<^verbatim>\<open>pullLocked\<close> are library code: they are the
  fields of a parameter. \<open>'r\<close> is a repository handle, \<open>'g\<close> the state those calls read and
  change (object store, index, work tree, remote). An error is its message;
  \<open>fmtMinute\<close> is \<^verbatim>\<open>Format("2006-01-02 15:04")\<close> of a time.
\<close>

datatype pull_result = PullNil | PullAlreadyUpToDate | PullErr string

record ('r, 'g) gitlib =
  gitWorktree :: "'r \<Rightarrow> 'g \<Rightarrow> string option"
  gitAddGlob :: "'r \<Rightarrow> string \<Rightarrow> 'g \<Rightarrow> string option \<times> 'g"
  gitStatus :: "'r \<Rightarrow> 'g \<Rightarrow> string + bool"
  gitCommit :: "'r \<Rightarrow> string \<Rightarrow> string \<Rightarrow> string \<Rightarrow> int \<Rightarrow> 'g \<Rightarrow> string option \<times> 'g"
  gitPull :: "'r \<Rightarrow> string \<Rightarrow> string option \<Rightarrow> 'g \<Rightarrow> pull_result \<times> 'g"
  gitPush :: "'r \<Rightarrow> string option \<Rightarrow> 'g \<Rightarrow> string option \<times> 'g"
  fmtMinute :: "int \<Rightarrow> string"

text \<open>
  What the worker runs in: the worker itself, the clock, the runtime's table of armed
  timers (number and deadline; every timer of this program calls \<^verbatim>\<open>doSync\<close>), the next
  free timer number, the git state and the lines written to the log.
\<close>

record ('r, 'g) world =
  gs :: "'r Syncer"
  clock :: int
  armed :: "(nat \<times> int) list"
  nextTimer :: nat
  git :: 'g
  logged :: "string list"

datatype panic = NilDereference

subsection \<open>The runtime's timers\<close>

text \<open>
  \<^verbatim>\<open>time.AfterFunc(d, f)\<close> arms a new timer that calls \<open>f\<close> once \<open>d\<close> has elapsed and
  returns it; \<^verbatim>\<open>t.Stop()\<close> disarms \<open>t\<close> and does nothing to a timer that has fired or
  was stopped before.
\<close>

definition afterFunc :: "int \<Rightarrow> ('r, 'g) world \<Rightarrow> nat \<times> ('r, 'g) world" where
  "afterFunc d w =
     (nextTimer w, w\<lparr>armed := armed w @ [(nextTimer w, clock w + d)],
                      nextTimer := Suc (nextTimer w)\<rparr>)"

definition timerStop :: "nat \<Rightarrow> ('r, 'g) world \<Rightarrow> ('r, 'g) world" where
  "timerStop i w = w\<lparr>armed := filter (\<lambda>e. fst e \<noteq> i) (armed w)\<rparr>"

definition logLine :: "string \<Rightarrow> ('r, 'g) world \<Rightarrow> ('r, 'g) world" where
  "logLine s w = w\<lparr>logged := logged w @ [s]\<rparr>"

subsection \<open>New, Trigger, pullLocked, doSync\<close>

definition New :: "Config \<Rightarrow> 'r option \<Rightarrow> 'r Syncer" where
  "New cfg r =
     \<lparr>sdir = Dir cfg, repo = r, remote = Repo cfg, branch = Branch cfg, user = User cfg,
      email = Email cfg, token = Token cfg, debounce = Debounce cfg, timer = None\<rparr>"

definition Trigger :: "('r, 'g) world \<Rightarrow> ('r, 'g) world" where
  "Trigger w =
     (let w1 = (case timer (gs w) of None \<Rightarrow> w | Some t \<Rightarrow> timerStop t w);
          (t', w2) = afterFunc (debounce (gs w1)) w1
      in w2\<lparr>gs := (gs w2)\<lparr>timer := Some t'\<rparr>\<rparr>)"

definition basicAuth :: "string \<Rightarrow> string option" where
  "basicAuth tok = (if tok \<noteq> [] then Some tok else None)"

text \<open>
  \<^verbatim>\<open>pullLocked\<close> calls a method on \<^verbatim>\<open>gs.repo\<close> without a nil check: on a nil repository
  that dereference panics.
\<close>

definition pullLocked :: "('r, 'g) gitlib \<Rightarrow> ('r, 'g) world \<Rightarrow> panic + ('r, 'g) world" where
  "pullLocked L w =
     (case repo (gs w) of
        None \<Rightarrow> Inl NilDereference
      | Some r \<Rightarrow>
          (case gitWorktree L r (git w) of
             Some err \<Rightarrow> Inr (logLine (''[git] pull: worktree failed: '' @ err) w)
           | None \<Rightarrow>
               (case gitPull L r (branch (gs w)) (basicAuth (token (gs w))) (git w) of
                  (PullNil, g) \<Rightarrow> Inr (logLine ''[git] pulled new changes'' (w\<lparr>git := g\<rparr>))
                | (PullAlreadyUpToDate, g) \<Rightarrow> Inr (w\<lparr>git := g\<rparr>)
                | (PullErr err, g) \<Rightarrow>
                    Inr (logLine (''[git] pull failed: '' @ err) (w\<lparr>git := g\<rparr>)))))"

definition doPull :: "('r, 'g) gitlib \<Rightarrow> ('r, 'g) world \<Rightarrow> panic + ('r, 'g) world" where
  "doPull L w = pullLocked L w"

definition pushAfterPull :: "('r, 'g) gitlib \<Rightarrow> 'r \<Rightarrow> ('r, 'g) world \<Rightarrow> panic + ('r, 'g) world" where
  "pushAfterPull L r w =
     (if remote (gs w) \<noteq> [] then
        (case pullLocked L w of
           Inl p \<Rightarrow> Inl p
         | Inr w1 \<Rightarrow>
             (case gitPush L r (basicAuth (token (gs w1))) (git w1) of
                (Some err, g) \<Rightarrow> Inr (logLine (''[git] push failed: '' @ err) (w1\<lparr>git := g\<rparr>))
              | (None, g) \<Rightarrow> Inr (logLine ''[git] pushed'' (w1\<lparr>git := g\<rparr>))))
      else Inr w)"

definition doSync :: "('r, 'g) gitlib \<Rightarrow> ('r, 'g) world \<Rightarrow> panic + ('r, 'g) world" where
  "doSync L w0 =
     (let w = logLine ''[git] syncing...'' w0 in
      case repo (gs w) of
        None \<Rightarrow> Inr (logLine ''[git] no repo configured, skipping sync'' w)
      | Some r \<Rightarrow>
          (case gitWorktree L r (git w) of
             Some err \<Rightarrow> Inr (logLine (''[git] worktree failed: '' @ err) w)
           | None \<Rightarrow>
               (case gitAddGlob L r ''.'' (git w) of
                  (Some err, g) \<Rightarrow> Inr (logLine (''[git] add failed: '' @ err) (w\<lparr>git := g\<rparr>))
                | (None, g) \<Rightarrow>
                    (case gitStatus L r g of
                       Inl err \<Rightarrow> Inr (logLine (''[git] status failed: '' @ err) (w\<lparr>git := g\<rparr>))
                     | Inr True \<Rightarrow> Inr (logLine ''[git] no changes'' (w\<lparr>git := g\<rparr>))
                     | Inr False \<Rightarrow>
                         (case gitCommit L r (''sync: '' @ fmtMinute L (clock w))
                                 (user (gs w)) (email (gs w)) (clock w) g of
                            (Some err, g') \<Rightarrow>
                              Inr (logLine (''[git] commit failed: '' @ err) (w\<lparr>git := g'\<rparr>))
                          | (None, g') \<Rightarrow> pushAfterPull L r (w\<lparr>git := g'\<rparr>))))))"

subsection \<open>Time passing\<close>

text \<open>
  When the clock reaches a timer's deadline the runtime takes the timer out of its table
  and runs \<^verbatim>\<open>doSync\<close>. \<open>fireDue\<close> does so for the timers of a list, in order.
\<close>

fun fireDue :: "('r, 'g) gitlib \<Rightarrow> (nat \<times> int) list \<Rightarrow> ('r, 'g) world \<Rightarrow> panic + ('r, 'g) world" where
  "fireDue L [] w = Inr w"
| "fireDue L (e # es) w =
     (if snd e \<le> clock w then
        (case doSync L (timerStop (fst e) w) of
           Inl p \<Rightarrow> Inl p
         | Inr w' \<Rightarrow> fireDue L es w')
      else fireDue L es w)"

definition elapse :: "('r, 'g) gitlib \<Rightarrow> nat \<Rightarrow> ('r, 'g) world \<Rightarrow> panic + ('r, 'g) world" where
  "elapse L d w = (let w' = w\<lparr>clock := clock w + int d\<rparr> in fireDue L (armed w') w')"

datatype event = CallTrigger | Elapse nat | CallDoSync

fun step :: "('r, 'g) gitlib \<Rightarrow> event \<Rightarrow> ('r, 'g) world \<Rightarrow> panic + ('r, 'g) world" where
  "step L CallTrigger w = Inr (Trigger w)"
| "step L (Elapse d) w = elapse L d w"
| "step L CallDoSync w = doSync L w"

fun run :: "('r, 'g) gitlib \<Rightarrow> event list \<Rightarrow> ('r, 'g) world \<Rightarrow> panic + ('r, 'g) world" where
  "run L [] w = Inr w"
| "run L (e # es) w = (case step L e w of Inl p \<Rightarrow> Inl p | Inr w' \<Rightarrow> run L es w')"

definition start :: "Config \<Rightarrow> 'r option \<Rightarrow> int \<Rightarrow> 'g \<Rightarrow> ('r, 'g) world" where
  "start cfg r t g =
     \<lparr>gs = New cfg r, clock = t, armed = [], nextTimer = 0, git = g, logged = []\<rparr>"

text \<open>
  Every execution of \<^verbatim>\<open>doSync\<close> writes the line \<^verbatim>\<open>[git] syncing...\<close> first, and nothing
  else writes it: the number of executions is the number of such lines.
\<close>

definition syncRuns :: "('r, 'g) world \<Rightarrow> nat" where
  "syncRuns w = count_list (logged w) ''[git] syncing...''"

text \<open>A burst: a first \<^verbatim>\<open>Trigger()\<close>, then each further one after a gap.\<close>

definition burst :: "nat list \<Rightarrow> event list" where
  "burst gaps = CallTrigger # concat (map (\<lambda>d. [Elapse d, CallTrigger]) gaps)"


section \<open>Strings and bytes\<close>

text \<open>
  A Go \<^verbatim>\<open>string\<close> and a Go \<^verbatim>\<open>[]byte\<close> are both sequences of bytes, and so is a HOL
  \<open>string\<close>: the conversions between the two Go types are the identity here. Strings
  are ordered as Go orders them, byte by byte (\<open>Char_ord\<close>, \<open>List_Lexorder\<close>).
\<close>

subsection \<open>Package strings\<close>

definition HasPrefix :: "string \<Rightarrow> string \<Rightarrow> bool" where
  "HasPrefix s p = (take (length p) s = p)"

definition TrimPrefix :: "string \<Rightarrow> string \<Rightarrow> string" where
  "TrimPrefix s p = (if HasPrefix s p then drop (length p) s else s)"

text \<open>\<^verbatim>\<open>strings.Cut\<close>: the text before and after the first occurrence of \<open>sep\<close>.\<close>

fun Cut :: "string \<Rightarrow> string \<Rightarrow> (string \<times> string) option" where
  "Cut [] sep = (if sep = [] then Some ([], []) else None)"
| "Cut (c # cs) sep =
     (if HasPrefix (c # cs) sep then Some ([], drop (length sep) (c # cs))
      else (case Cut cs sep of None \<Rightarrow> None | Some (a, b) \<Rightarrow> Some (c # a, b)))"

lemma Cut_shorter: "Cut s sep = Some (a, b) \<Longrightarrow> sep \<noteq> [] \<Longrightarrow> length b < length s"
  by (induction s arbitrary: a b) (auto split: if_splits option.splits)

text \<open>
  \<^verbatim>\<open>strings.Split(s, sep)\<close> for a separator that is not empty, which is how this program
  calls it (on an empty separator Go splits into characters; the model returns \<open>[s]\<close>).
\<close>

function Split :: "string \<Rightarrow> string \<Rightarrow> string list" where
  "Split s sep =
     (if sep = [] then [s]
      else (case Cut s sep of None \<Rightarrow> [s] | Some (a, b) \<Rightarrow> a # Split b sep))"
  by pat_completeness auto
termination
  by (relation "measure (\<lambda>(s, sep). length s)") (auto dest: Cut_shorter)

declare Split.simps [simp del]

text \<open>\<^verbatim>\<open>strings.SplitN(s, sep, 2)\<close>: at most two parts, split at the first separator.\<close>

definition SplitN2 :: "string \<Rightarrow> string \<Rightarrow> string list" where
  "SplitN2 s sep = (case Cut s sep of None \<Rightarrow> [s] | Some (a, b) \<Rightarrow> [a, b])"

fun Join :: "string list \<Rightarrow> string \<Rightarrow> string" where
  "Join [] sep = []"
| "Join [x] sep = x"
| "Join (x # y # ys) sep = x @ sep @ Join (y # ys) sep"

text \<open>
  \<^verbatim>\<open>strings.TrimSpace\<close> removes leading and trailing white space. The model knows the six
  ASCII white space bytes; Go also removes the code points U+0085, U+00A0 and the other
  Unicode spaces, which are sequences of bytes above 127 in a Go string.
\<close>

definition isSpace :: "char \<Rightarrow> bool" where
  "isSpace c = (c = CHR 0x09 \<or> c = CHR 0x0A \<or> c = CHR 0x0B \<or> c = CHR 0x0C \<or> c = CHR 0x0D
                \<or> c = CHR '' '')"

definition TrimSpace :: "string \<Rightarrow> string" where
  "TrimSpace s = rev (dropWhile isSpace (rev (dropWhile isSpace s)))"

text \<open>\<^verbatim>\<open>sort.Strings\<close>.\<close>

definition sortStrings :: "string list \<Rightarrow> string list" where
  "sortStrings xs = sort xs"

subsection \<open>Package encoding/hex, decimal numbers\<close>

definition hexDigit :: "nat \<Rightarrow> char" where
  "hexDigit n = ''0123456789abcdef'' ! (n mod 16)"

definition EncodeToString :: "string \<Rightarrow> string" where
  "EncodeToString bs =
     concat (map (\<lambda>b. [hexDigit (of_char b div 16), hexDigit (of_char b mod 16)]) bs)"

definition digitChar :: "nat \<Rightarrow> char" where
  "digitChar n = ''0123456789'' ! (n mod 10)"

text \<open>\<^verbatim>\<open>fmt.Sprintf("%d", n)\<close> for a number that is not negative.\<close>

fun decimal :: "nat \<Rightarrow> string" where
  "decimal n = (if n < 10 then [digitChar n] else decimal (n div 10) @ [digitChar (n mod 10)])"

declare decimal.simps [simp del]

definition isDigit :: "char \<Rightarrow> bool" where
  "isDigit c = (CHR ''0'' \<le> c \<and> c \<le> CHR ''9'')"

definition digitsValue :: "string \<Rightarrow> int" where
  "digitsValue ds = foldl (\<lambda>v c. 10 * v + (of_char c - of_char CHR ''0'')) 0 ds"

text \<open>
  \<^verbatim>\<open>strconv.Atoi\<close>: an optional sign and at least one decimal digit; \<open>None\<close> is the error it
  returns on any other text and on a value outside the 64-bit \<^verbatim>\<open>int\<close>.
\<close>

definition Atoi :: "string \<Rightarrow> int option" where
  "Atoi s =
     (let (neg, ds) = (case s of
                         c # r \<Rightarrow> if c = CHR ''-'' then (True, r)
                                   else if c = CHR ''+'' then (False, r) else (False, s)
                       | [] \<Rightarrow> (False, s))
      in if ds = [] \<or> \<not> list_all isDigit ds then None
         else let v = digitsValue ds; n = (if neg then - v else v)
              in if n < - (2 ^ 63) \<or> 2 ^ 63 - 1 < n then None else Some n)"

section \<open>Library code the handler calls\<close>

subsection \<open>Hashes and times\<close>

text \<open>
  SHA-256 and HMAC-SHA256 are Go's \<^verbatim>\<open>crypto/sha256\<close> and \<^verbatim>\<open>crypto/hmac\<close>; the renderings
  of a time are Go's \<^verbatim>\<open>time\<close> package. They are parameters. A digest is 32 bytes, which
  is all the program relies on.
\<close>

typedef digest = "{bs :: string. length bs = 32}"
  by (rule exI[of _ "replicate 32 (CHR 0x00)"]) simp

record stdlib =
  sha256Sum :: "string \<Rightarrow> digest"
  hmacSum :: "string \<Rightarrow> string \<Rightarrow> digest"
  timeString :: "int \<Rightarrow> string"
  formatRFC3339 :: "int \<Rightarrow> string"
  formatHTTP :: "int \<Rightarrow> string"

subsection \<open>Package path/filepath (Unix)\<close>

text \<open>
  \<^verbatim>\<open>Clean\<close> works on the elements of the path between slashes: it drops empty elements
  and \<^verbatim>\<open>.\<close>, lets \<^verbatim>\<open>..\<close> cancel the element before it, drops a \<^verbatim>\<open>..\<close> at the root of a
  rooted path and keeps it at the start of a relative one. \<open>cleanStep\<close> holds the kept
  elements last first.
\<close>

definition cleanStep :: "bool \<Rightarrow> string list \<Rightarrow> string \<Rightarrow> string list" where
  "cleanStep rooted st c =
     (if c = [] \<or> c = ''.'' then st
      else if c = ''..'' then
        (case st of
           [] \<Rightarrow> if rooted then [] else [''..'']
         | t # ts \<Rightarrow> if t = ''..'' then ''..'' # st else ts)
      else c # st)"

definition isRooted :: "string \<Rightarrow> bool" where
  "isRooted p = (case p of [] \<Rightarrow> False | c # _ \<Rightarrow> c = CHR ''/'')"

definition Clean :: "string \<Rightarrow> string" where
  "Clean p =
     (if p = [] then ''.''
      else let body = Join (rev (foldl (cleanStep (isRooted p)) [] (Split p ''/''))) ''/''
           in if isRooted p then CHR ''/'' # body
              else if body = [] then ''.'' else body)"

text \<open>\<^verbatim>\<open>filepath.Join(a, b)\<close>; \<^verbatim>\<open>filepath.FromSlash\<close> and \<^verbatim>\<open>ToSlash\<close> are the identity on Unix.\<close>

definition filepathJoin :: "string \<Rightarrow> string \<Rightarrow> string" where
  "filepathJoin a b =
     (if a \<noteq> [] then Clean (a @ ''/'' @ b) else if b \<noteq> [] then Clean b else [])"

definition FromSlash :: "string \<Rightarrow> string" where
  "FromSlash p = p"

text \<open>\<^verbatim>\<open>filepath.Dir\<close>: the path up to its last slash, cleaned.\<close>

definition filepathDir :: "string \<Rightarrow> string" where
  "filepathDir p = Clean (rev (dropWhile (\<lambda>c. c \<noteq> CHR ''/'') (rev p)))"

text \<open>\<^verbatim>\<open>filepath.Base\<close>: the last element of the path.\<close>

definition filepathBase :: "string \<Rightarrow> string" where
  "filepathBase p =
     (if p = [] then ''.''
      else let q = rev (dropWhile (\<lambda>c. c = CHR ''/'') (rev p))
           in if q = [] then ''/'' else rev (takeWhile (\<lambda>c. c \<noteq> CHR ''/'') (rev q)))"

subsection \<open>The file system (package os)\<close>

text \<open>
  The directory tree the operating system keeps: a file has its content and its
  modification time, a directory its modification time and its entries by name, in the
  order \<^verbatim>\<open>ReadDir\<close> lists them (sorted by name). \<open>cwd\<close> is the working directory of the
  process, as the names from the root down; \<open>now\<close> is the time a change is stamped with;
  \<open>dirSize\<close> is the size \<^verbatim>\<open>Stat\<close> reports for a directory.
\<close>

datatype errno = ENOENT | ENOTDIR | EISDIR | ENOTEMPTY | EINVAL | EBUSY

datatype node = File string int | Folder int "(string \<times> node) list"

record fsys =
  root :: node
  cwd :: "string list"
  now :: int
  dirSize :: nat

definition errnoText :: "errno \<Rightarrow> string" where
  "errnoText e =
     (case e of ENOENT \<Rightarrow> ''no such file or directory'' | ENOTDIR \<Rightarrow> ''not a directory''
      | EISDIR \<Rightarrow> ''is a directory'' | ENOTEMPTY \<Rightarrow> ''directory not empty''
      | EINVAL \<Rightarrow> ''invalid argument'' | EBUSY \<Rightarrow> ''device or resource busy'')"

text \<open>\<^verbatim>\<open>(*PathError).Error()\<close>.\<close>

definition pathError :: "string \<Rightarrow> string \<Rightarrow> errno \<Rightarrow> string" where
  "pathError opn p e = opn @ '' '' @ p @ '': '' @ errnoText e"

text \<open>
  The names a path string stands for, from the root down. The empty path names nothing.
  The paths this program hands to the system are cleaned (all but the root of the
  listing walk), so \<^verbatim>\<open>..\<close> only occurs at the start of a relative path, where it steps up
  from the working directory.
\<close>

definition resolveStep :: "string list \<Rightarrow> string \<Rightarrow> string list" where
  "resolveStep st c =
     (if c = [] \<or> c = ''.'' then st else if c = ''..'' then butlast st else st @ [c])"

definition resolve :: "fsys \<Rightarrow> string \<Rightarrow> string list option" where
  "resolve fs p =
     (if p = [] then None
      else Some (foldl resolveStep (if isRooted p then [] else cwd fs) (Split p ''/'')))"

fun lookup :: "string list \<Rightarrow> node \<Rightarrow> errno + node" where
  "lookup [] n = Inr n"
| "lookup (c # cs) n =
     (case n of
        File _ _ \<Rightarrow> Inl ENOTDIR
      | Folder m es \<Rightarrow> (case map_of es c of None \<Rightarrow> Inl ENOENT | Some ch \<Rightarrow> lookup cs ch))"

text \<open>\<^verbatim>\<open>MkdirAll\<close>: the directory and every missing directory above it.\<close>

fun mkdirAllAt :: "int \<Rightarrow> string list \<Rightarrow> node \<Rightarrow> errno + node" where
  "mkdirAllAt t [] n = (case n of File _ _ \<Rightarrow> Inl ENOTDIR | Folder _ _ \<Rightarrow> Inr n)"
| "mkdirAllAt t (c # cs) n =
     (case n of
        File _ _ \<Rightarrow> Inl ENOTDIR
      | Folder m es \<Rightarrow>
          (case map_of es c of
             None \<Rightarrow>
               (case mkdirAllAt t cs (Folder t []) of
                  Inl e \<Rightarrow> Inl e
                | Inr ch \<Rightarrow> Inr (Folder t (insort_key fst (c, ch) es)))
           | Some ch \<Rightarrow>
               (case mkdirAllAt t cs ch of
                  Inl e \<Rightarrow> Inl e
                | Inr ch' \<Rightarrow> Inr (Folder m (AList.update c ch' es)))))"

text \<open>
  A file with content \<open>b\<close> at a path: \<^verbatim>\<open>os.Create\<close> makes the file or truncates it
  (\<open>b\<close> empty), and writing to the open file replaces what it holds.
\<close>

fun storeAt :: "int \<Rightarrow> string \<Rightarrow> string list \<Rightarrow> node \<Rightarrow> errno + node" where
  "storeAt t b [] n = (case n of File _ _ \<Rightarrow> Inr (File b t) | Folder _ _ \<Rightarrow> Inl EISDIR)"
| "storeAt t b (c # cs) n =
     (case n of
        File _ _ \<Rightarrow> Inl ENOTDIR
      | Folder m es \<Rightarrow>
          (case map_of es c of
             None \<Rightarrow>
               if cs = [] then Inr (Folder t (insort_key fst (c, File b t) es)) else Inl ENOENT
           | Some ch \<Rightarrow>
               (case storeAt t b cs ch of
                  Inl e \<Rightarrow> Inl e
                | Inr ch' \<Rightarrow> Inr (Folder m (AList.update c ch' es)))))"

text \<open>
  \<^verbatim>\<open>os.Remove\<close>: a file, or a directory that is empty. It tries \<^verbatim>\<open>unlink\<close>, then \<^verbatim>\<open>rmdir\<close>,
  and reports the error of \<^verbatim>\<open>rmdir\<close> unless that is \<^verbatim>\<open>ENOTDIR\<close>.
\<close>

fun removeAt :: "int \<Rightarrow> string list \<Rightarrow> node \<Rightarrow> errno + node" where
  "removeAt t [] n = Inl EBUSY"
| "removeAt t (c # cs) n =
     (case n of
        File _ _ \<Rightarrow> Inl ENOTDIR
      | Folder m es \<Rightarrow>
          (case map_of es c of
             None \<Rightarrow> Inl ENOENT
           | Some ch \<Rightarrow>
               if cs = [] then
                 (case ch of
                    File _ _ \<Rightarrow> Inr (Folder t (AList.delete c es))
                  | Folder _ ces \<Rightarrow>
                      if ces = [] then Inr (Folder t (AList.delete c es)) else Inl ENOTEMPTY)
               else
                 (case removeAt t cs ch of
                    Inl e \<Rightarrow> Inl e
                  | Inr ch' \<Rightarrow> Inr (Folder m (AList.update c ch' es)))))"

definition atPath :: "fsys \<Rightarrow> string \<Rightarrow> (string list \<Rightarrow> node \<Rightarrow> errno + node) \<Rightarrow> errno + fsys" where
  "atPath fs p f =
     (case resolve fs p of
        None \<Rightarrow> Inl ENOENT
      | Some cs \<Rightarrow> (case f cs (root fs) of Inl e \<Rightarrow> Inl e | Inr n \<Rightarrow> Inr (fs\<lparr>root := n\<rparr>)))"

definition osStat :: "fsys \<Rightarrow> string \<Rightarrow> errno + node" where
  "osStat fs p = (case resolve fs p of None \<Rightarrow> Inl ENOENT | Some cs \<Rightarrow> lookup cs (root fs))"

definition osMkdirAll :: "string \<Rightarrow> fsys \<Rightarrow> errno + fsys" where
  "osMkdirAll p fs = atPath fs p (mkdirAllAt (now fs))"

definition osCreate :: "string \<Rightarrow> fsys \<Rightarrow> errno + fsys" where
  "osCreate p fs = atPath fs p (storeAt (now fs) [])"

definition fileWrite :: "string \<Rightarrow> string \<Rightarrow> fsys \<Rightarrow> errno + fsys" where
  "fileWrite p b fs = atPath fs p (storeAt (now fs) b)"

text \<open>Reading an open file to its end; reading a directory is an error.\<close>

definition fileRead :: "fsys \<Rightarrow> string \<Rightarrow> errno + string" where
  "fileRead fs p =
     (case osStat fs p of
        Inl e \<Rightarrow> Inl e
      | Inr (File b _) \<Rightarrow> Inr b
      | Inr (Folder _ _) \<Rightarrow> Inl EISDIR)"

definition osRemove :: "string \<Rightarrow> fsys \<Rightarrow> errno + fsys" where
  "osRemove p fs = (if p = ''.'' then Inl EINVAL else atPath fs p (removeAt (now fs)))"

definition osReadDir :: "fsys \<Rightarrow> string \<Rightarrow> errno + string list" where
  "osReadDir fs p =
     (case osStat fs p of
        Inl e \<Rightarrow> Inl e
      | Inr (File _ _) \<Rightarrow> Inl ENOTDIR
      | Inr (Folder _ es) \<Rightarrow> Inr (map fst es))"

text \<open>What \<^verbatim>\<open>os.FileInfo\<close> says about a node.\<close>

definition IsDir :: "node \<Rightarrow> bool" where
  "IsDir n = (case n of File _ _ \<Rightarrow> False | Folder _ _ \<Rightarrow> True)"

definition ModTime :: "node \<Rightarrow> int" where
  "ModTime n = (case n of File _ m \<Rightarrow> m | Folder m _ \<Rightarrow> m)"

definition infoSize :: "fsys \<Rightarrow> node \<Rightarrow> nat" where
  "infoSize fs n = (case n of File b _ \<Rightarrow> length b | Folder _ _ \<Rightarrow> dirSize fs)"

subsection \<open>Package net/http and net/url\<close>

text \<open>
  A request as the handler reads it: its method, its \<^verbatim>\<open>Host\<close>, its header (canonical key
  to values), of its URL the path, the value of \<^verbatim>\<open>EscapedPath()\<close> and the parsed query
  \<^verbatim>\<open>Query()\<close> (key to values), and the bytes of its body.
\<close>

record request =
  Method :: string
  Host :: string
  Header :: "(string \<times> string list) list"
  URLPath :: string
  URLEscapedPath :: string
  URLQuery :: "(string \<times> string list) list"
  Body :: string

definition validHeaderFieldByte :: "char \<Rightarrow> bool" where
  "validHeaderFieldByte c =
     ((CHR ''a'' \<le> c \<and> c \<le> CHR ''z'') \<or> (CHR ''A'' \<le> c \<and> c \<le> CHR ''Z'')
      \<or> (CHR ''0'' \<le> c \<and> c \<le> CHR ''9'') \<or> c \<in> set ''!#$%&*+-.^_`|~'' \<or> c = CHR 0x27)"

definition toUpper :: "char \<Rightarrow> char" where
  "toUpper c = (if CHR ''a'' \<le> c \<and> c \<le> CHR ''z'' then char_of (of_char c - (32::nat)) else c)"

definition toLower :: "char \<Rightarrow> char" where
  "toLower c = (if CHR ''A'' \<le> c \<and> c \<le> CHR ''Z'' then char_of (of_char c + (32::nat)) else c)"

fun canonicalize :: "bool \<Rightarrow> string \<Rightarrow> string" where
  "canonicalize upper [] = []"
| "canonicalize upper (c # cs) =
     (let c' = (if upper then toUpper c else toLower c) in c' # canonicalize (c' = CHR ''-'') cs)"

text \<open>
  \<^verbatim>\<open>textproto.CanonicalMIMEHeaderKey\<close>: a key of header field bytes gets an upper case
  letter first and after each dash and lower case letters elsewhere; any other key is
  left as it is.
\<close>

definition CanonicalMIMEHeaderKey :: "string \<Rightarrow> string" where
  "CanonicalMIMEHeaderKey s = (if list_all validHeaderFieldByte s then canonicalize True s else s)"

definition headerGet :: "(string \<times> string list) list \<Rightarrow> string \<Rightarrow> string" where
  "headerGet h k = (case map_of h (CanonicalMIMEHeaderKey k) of Some (v # _) \<Rightarrow> v | _ \<Rightarrow> [])"

definition headerSet :: "string \<Rightarrow> string \<Rightarrow> (string \<times> string list) list \<Rightarrow> (string \<times> string list) list" where
  "headerSet k v h = AList.update (CanonicalMIMEHeaderKey k) [v] h"

text \<open>\<^verbatim>\<open>url.Values.Get\<close> and \<^verbatim>\<open>url.Values.Encode\<close> (keys sorted, keys and values escaped).\<close>

definition queryGet :: "(string \<times> string list) list \<Rightarrow> string \<Rightarrow> string" where
  "queryGet q k = (case map_of q k of Some (v # _) \<Rightarrow> v | _ \<Rightarrow> [])"

definition upperHexDigit :: "nat \<Rightarrow> char" where
  "upperHexDigit n = ''0123456789ABCDEF'' ! (n mod 16)"

definition unreserved :: "char \<Rightarrow> bool" where
  "unreserved c =
     ((CHR ''a'' \<le> c \<and> c \<le> CHR ''z'') \<or> (CHR ''A'' \<le> c \<and> c \<le> CHR ''Z'')
      \<or> (CHR ''0'' \<le> c \<and> c \<le> CHR ''9'') \<or> c \<in> set ''-_.~'')"

definition QueryEscape :: "string \<Rightarrow> string" where
  "QueryEscape s =
     concat (map (\<lambda>c. if unreserved c then [c]
                       else if c = CHR '' '' then ''+''
                       else [CHR ''%'', upperHexDigit (of_char c div 16), upperHexDigit (of_char c mod 16)]) s)"

definition Encode :: "(string \<times> string list) list \<Rightarrow> string" where
  "Encode q =
     Join (concat (map (\<lambda>k. map (\<lambda>v. QueryEscape k @ ''='' @ QueryEscape v)
                               (case map_of q k of None \<Rightarrow> [] | Some vs \<Rightarrow> vs))
                       (sortStrings (map fst q)))) ''&''"

text \<open>
  The response as the \<^verbatim>\<open>ResponseWriter\<close> collects it: the header map, the status of the
  first \<^verbatim>\<open>WriteHeader\<close>, and what was written to the body. XML documents are kept as the
  values \<^verbatim>\<open>encoding/xml\<close> encodes.
\<close>

record ErrorResponse =
  Code :: string
  Message :: string

record ObjectInfo =
  Key :: string
  LastModified :: string
  ETag :: string
  Size :: int
  StorageClass :: string

record ListBucketResult =
  Xmlns :: string
  Name :: string
  Prefix :: string
  KeyCount :: int
  MaxKeys :: int
  IsTruncated :: bool
  Contents :: "ObjectInfo list"
  ContinuationToken :: string
  NextContinuationToken :: string

datatype chunk = Bytes string | ErrorXML ErrorResponse | ListXML ListBucketResult

record ResponseWriter =
  wHeader :: "(string \<times> string list) list"
  wStatus :: "nat option"
  wBody :: "chunk list"

definition newRecorder :: ResponseWriter where
  "newRecorder = \<lparr>wHeader = [], wStatus = None, wBody = []\<rparr>"

definition hSet :: "string \<Rightarrow> string \<Rightarrow> ResponseWriter \<Rightarrow> ResponseWriter" where
  "hSet k v w = w\<lparr>wHeader := headerSet k v (wHeader w)\<rparr>"

definition WriteHeader :: "nat \<Rightarrow> ResponseWriter \<Rightarrow> ResponseWriter" where
  "WriteHeader c w = (if wStatus w = None then w\<lparr>wStatus := Some c\<rparr> else w)"

definition Write :: "chunk \<Rightarrow> ResponseWriter \<Rightarrow> ResponseWriter" where
  "Write x w = (WriteHeader 200 w)\<lparr>wBody := wBody w @ [x]\<rparr>"


section \<open>Signature verification (sigv4.go)\<close>

definition hmacSHA256 :: "stdlib \<Rightarrow> string \<Rightarrow> string \<Rightarrow> string" where
  "hmacSHA256 L key data = Rep_digest (hmacSum L key data)"

definition hashSHA256 :: "stdlib \<Rightarrow> string \<Rightarrow> string" where
  "hashSHA256 L data = EncodeToString (Rep_digest (sha256Sum L data))"

definition deriveSigningKey :: "stdlib \<Rightarrow> string \<Rightarrow> string \<Rightarrow> string \<Rightarrow> string \<Rightarrow> string" where
  "deriveSigningKey L secret dateStamp region service =
     (let kDate = hmacSHA256 L (''AWS4'' @ secret) dateStamp;
          kRegion = hmacSHA256 L kDate region;
          kService = hmacSHA256 L kRegion service
      in hmacSHA256 L kService ''aws4_request'')"

definition sortQueryString :: "string \<Rightarrow> string" where
  "sortQueryString qs = (if qs = [] then [] else Join (sortStrings (Split qs ''&'')) ''&'')"

text \<open>
  The map \<^verbatim>\<open>fields\<close> of \<^verbatim>\<open>sigV4Verify\<close> (here \<open>fieldMap\<close>): one entry for each part with an equals sign, a
  later part replacing an earlier one of the same key. A key that is absent reads as the
  empty string.
\<close>

definition authFields :: "string \<Rightarrow> (string \<times> string) list" where
  "authFields parts =
     foldl (\<lambda>fieldMap part.
              case SplitN2 part ''='' of
                [k, v] \<Rightarrow> AList.update (TrimSpace k) (TrimSpace v) fieldMap
              | _ \<Rightarrow> fieldMap)
           [] (Split parts '', '')"

definition field :: "(string \<times> string) list \<Rightarrow> string \<Rightarrow> string" where
  "field fieldMap k = (case map_of fieldMap k of None \<Rightarrow> [] | Some v \<Rightarrow> v)"

definition canonicalHeaders :: "request \<Rightarrow> string list \<Rightarrow> string" where
  "canonicalHeaders r signedHeaders =
     concat (map (\<lambda>h. h @ '':'' @ (if h = ''host'' then Host r
                                     else TrimSpace (headerGet (Header r) h)) @ [CHR 0x0A])
                 signedHeaders)"

definition canonicalRequest :: "request \<Rightarrow> string \<Rightarrow> string" where
  "canonicalRequest r signedHeadersStr =
     (let signedHeaders = sortStrings (Split signedHeadersStr '';'');
          payloadHash = (let p = headerGet (Header r) ''X-Amz-Content-Sha256''
                         in if p = [] then ''UNSIGNED-PAYLOAD'' else p);
          canonicalURI = (if URLEscapedPath r = [] then ''/'' else URLEscapedPath r);
          canonicalQueryString = sortQueryString (Encode (URLQuery r))
      in Join [Method r, canonicalURI, canonicalQueryString,
               canonicalHeaders r signedHeaders, signedHeadersStr, payloadHash] [CHR 0x0A])"

definition stringToSign :: "stdlib \<Rightarrow> request \<Rightarrow> string \<Rightarrow> string \<Rightarrow> string \<Rightarrow> string \<Rightarrow> string" where
  "stringToSign L r dateStamp credRegion service signedHeadersStr =
     Join [''AWS4-HMAC-SHA256'', headerGet (Header r) ''X-Amz-Date'',
           dateStamp @ ''/'' @ credRegion @ ''/'' @ service @ ''/aws4_request'',
           hashSHA256 L (canonicalRequest r signedHeadersStr)] [CHR 0x0A]"

definition sigV4Verify :: "stdlib \<Rightarrow> request \<Rightarrow> string \<Rightarrow> string \<Rightarrow> string \<Rightarrow> bool" where
  "sigV4Verify L r accessKey secretKey region =
     (let authHeader = headerGet (Header r) ''Authorization'' in
      if authHeader = [] then False
      else if \<not> HasPrefix authHeader ''AWS4-HMAC-SHA256 '' then False
      else
        let fieldMap = authFields (TrimPrefix authHeader ''AWS4-HMAC-SHA256 '');
            credential = field fieldMap ''Credential'';
            signedHeadersStr = field fieldMap ''SignedHeaders'';
            signature = field fieldMap ''Signature''
        in if credential = [] \<or> signedHeadersStr = [] \<or> signature = [] then False
           else
             (case Split credential ''/'' of
                [ak, dateStamp, credRegion, service, terminator] \<Rightarrow>
                  if ak \<noteq> accessKey then False
                  else if credRegion \<noteq> region then False
                  else
                    let signingKey = deriveSigningKey L secretKey dateStamp credRegion service;
                        expectedSig =
                          EncodeToString
                            (hmacSHA256 L signingKey
                               (stringToSign L r dateStamp credRegion service signedHeadersStr))
                    in signature = expectedSig
              | _ \<Rightarrow> False))"

section \<open>The S3 handler (handler.go)\<close>

text \<open>
  The handler's fields; its \<^verbatim>\<open>syncer\<close> is an interface with the one method
  \<^verbatim>\<open>Trigger()\<close>, and a call of it is an effect recorded below.
\<close>

record Handler =
  dir :: string
  bucket :: string
  accessKey :: string
  secretKey :: string
  region :: string

definition NewHandler :: "string \<Rightarrow> string \<Rightarrow> string \<Rightarrow> string \<Rightarrow> string \<Rightarrow> Handler" where
  "NewHandler d b ak sk rg = \<lparr>dir = d, bucket = b, accessKey = ak, secretKey = sk, region = rg\<rparr>"

text \<open>
  What a request runs in: the file system, and the effects so far in order: a line
  written to the log, a call of \<^verbatim>\<open>syncer.Trigger()\<close>, a call of \<^verbatim>\<open>sigV4Verify\<close>.
\<close>

datatype effect = Log string | TriggerCall | VerifyCall

record sys =
  disk :: fsys
  effects :: "effect list"

definition emit :: "effect \<Rightarrow> sys \<Rightarrow> sys" where
  "emit e s = s\<lparr>effects := effects s @ [e]\<rparr>"

definition quoted :: "string \<Rightarrow> string" where
  "quoted x = CHR 0x22 # x @ [CHR 0x22]"

definition xmlError :: "ResponseWriter \<Rightarrow> nat \<Rightarrow> string \<Rightarrow> string \<Rightarrow> ResponseWriter" where
  "xmlError w st c m =
     Write (ErrorXML \<lparr>Code = c, Message = m\<rparr>)
       (WriteHeader st (hSet ''Content-Type'' ''application/xml'' w))"

subsection \<open>listObjectsV2\<close>

text \<open>
  The function given to \<^verbatim>\<open>filepath.Walk\<close>, at a node that is not a directory (the
  variable \<^verbatim>\<open>prefix\<close> is \<open>prefix'\<close> here, \<open>prefix\<close> being a constant of lists). \<open>rel\<close> is
  the names from the root of the walk down to the node, so \<^verbatim>\<open>filepath.Rel(root, path)\<close>
  is their join (and \<^verbatim>\<open>.\<close> at the root itself). The result says whether the walk stops
  (\<^verbatim>\<open>SkipAll\<close>) and gives the objects collected.
\<close>

definition visitFile ::
  "stdlib \<Rightarrow> fsys \<Rightarrow> string \<Rightarrow> int \<Rightarrow> string list \<Rightarrow> node \<Rightarrow> ObjectInfo list \<Rightarrow> bool \<times> ObjectInfo list" where
  "visitFile L fs prefix' maxKeys rel info objects =
     (let relPath = (if rel = [] then ''.'' else Join rel ''/'') in
      if prefix' \<noteq> [] \<and> \<not> HasPrefix relPath prefix' then (False, objects)
      else if int (length objects) \<ge> maxKeys then (True, objects)
      else (False, objects @
              [\<lparr>Key = relPath, LastModified = formatRFC3339 L (ModTime info),
                ETag = quoted (hashSHA256 L (relPath @ timeString L (ModTime info))),
                Size = int (infoSize fs info), StorageClass = ''STANDARD''\<rparr>]))"

text \<open>
  \<^verbatim>\<open>filepath.Walk\<close> with that function: a directory named \<^verbatim>\<open>.git\<close> is skipped
  (\<^verbatim>\<open>SkipDir\<close>), any other directory is walked entry by entry.
\<close>

fun walk :: "stdlib \<Rightarrow> fsys \<Rightarrow> string \<Rightarrow> int \<Rightarrow> string list \<Rightarrow> string \<Rightarrow> node \<Rightarrow> ObjectInfo list \<Rightarrow> bool \<times> ObjectInfo list"
and walkEntries :: "stdlib \<Rightarrow> fsys \<Rightarrow> string \<Rightarrow> int \<Rightarrow> string list \<Rightarrow> (string \<times> node) list \<Rightarrow> ObjectInfo list \<Rightarrow> bool \<times> ObjectInfo list" where
  "walk L fs prefix' maxKeys rel name (File b m) objects =
     visitFile L fs prefix' maxKeys rel (File b m) objects"
| "walk L fs prefix' maxKeys rel name (Folder m es) objects =
     (if name = ''.git'' then (False, objects)
      else walkEntries L fs prefix' maxKeys rel es objects)"
| "walkEntries L fs prefix' maxKeys rel [] objects = (False, objects)"
| "walkEntries L fs prefix' maxKeys rel (e # es) objects =
     (case walk L fs prefix' maxKeys (rel @ [fst e]) (fst e) (snd e) objects of
        (True, objects') \<Rightarrow> (True, objects')
      | (False, objects') \<Rightarrow> walkEntries L fs prefix' maxKeys rel es objects')"

definition Walk :: "stdlib \<Rightarrow> fsys \<Rightarrow> string \<Rightarrow> string \<Rightarrow> int \<Rightarrow> ObjectInfo list" where
  "Walk L fs rootPath prefix' maxKeys =
     (case osStat fs rootPath of
        Inl e \<Rightarrow> []
      | Inr info \<Rightarrow> snd (walk L fs prefix' maxKeys [] (filepathBase rootPath) info []))"

definition listObjectsV2 ::
  "stdlib \<Rightarrow> Handler \<Rightarrow> ResponseWriter \<Rightarrow> request \<Rightarrow> string \<Rightarrow> sys \<Rightarrow> ResponseWriter \<times> sys" where
  "listObjectsV2 L h w r bucketName s =
     (let prefix' = queryGet (URLQuery r) ''prefix'';
          v = queryGet (URLQuery r) ''max-keys'';
          maxKeys = (if v \<noteq> [] then (case Atoi v of Some n \<Rightarrow> n | None \<Rightarrow> 1000) else 1000);
          objects = Walk L (disk s) (dir h) prefix' maxKeys;
          result = \<lparr>Xmlns = ''http://s3.amazonaws.com/doc/2006-03-01/'', Name = bucketName,
                    Prefix = prefix', KeyCount = int (length objects), MaxKeys = maxKeys,
                    IsTruncated = False, Contents = objects,
                    ContinuationToken = [], NextContinuationToken = []\<rparr>
      in (Write (ListXML result) (WriteHeader 200 (hSet ''Content-Type'' ''application/xml'' w)), s))"

subsection \<open>putObject, getObject, headObject\<close>

definition putObject ::
  "stdlib \<Rightarrow> Handler \<Rightarrow> ResponseWriter \<Rightarrow> request \<Rightarrow> string \<Rightarrow> sys \<Rightarrow> ResponseWriter \<times> sys" where
  "putObject L h w r key s =
     (let fullPath = filepathJoin (dir h) (FromSlash key) in
      case osMkdirAll (filepathDir fullPath) (disk s) of
        Inl e \<Rightarrow>
          (xmlError w 500 ''InternalError'' (pathError ''mkdir'' (filepathDir fullPath) e), s)
      | Inr fs1 \<Rightarrow>
          (case osCreate fullPath fs1 of
             Inl e \<Rightarrow>
               (xmlError w 500 ''InternalError'' (pathError ''open'' fullPath e), s\<lparr>disk := fs1\<rparr>)
           | Inr fs2 \<Rightarrow>
               (case fileWrite fullPath (Body r) fs2 of
                  Inl e \<Rightarrow>
                    (xmlError w 500 ''InternalError'' (pathError ''write'' fullPath e),
                     s\<lparr>disk := fs2\<rparr>)
                | Inr fs3 \<Rightarrow>
                    (let stored = (case fileRead fs3 fullPath of Inl e \<Rightarrow> [] | Inr b \<Rightarrow> b);
                         etag = quoted (take 32 (EncodeToString (Rep_digest (sha256Sum L stored))))
                     in (WriteHeader 200 (hSet ''ETag'' etag w),
                         emit TriggerCall (emit (Log (''[s3] PUT '' @ key)) (s\<lparr>disk := fs3\<rparr>)))))))"

definition getObject ::
  "stdlib \<Rightarrow> Handler \<Rightarrow> ResponseWriter \<Rightarrow> request \<Rightarrow> string \<Rightarrow> sys \<Rightarrow> ResponseWriter \<times> sys" where
  "getObject L h w r key s =
     (let fullPath = filepathJoin (dir h) (FromSlash key) in
      case osStat (disk s) fullPath of
        Inl e \<Rightarrow> (xmlError w 404 ''NoSuchKey'' ''Object not found'', s)
      | Inr info \<Rightarrow>
          (let w1 = hSet ''Content-Length'' (decimal (infoSize (disk s) info)) w;
               w2 = hSet ''Last-Modified'' (formatHTTP L (ModTime info)) w1;
               w3 = WriteHeader 200 w2;
               w4 = (case fileRead (disk s) fullPath of
                       Inl e \<Rightarrow> w3
                     | Inr b \<Rightarrow> if b = [] then w3 else Write (Bytes b) w3)
           in (w4, emit (Log (''[s3] GET '' @ key)) s)))"

definition headObject ::
  "stdlib \<Rightarrow> Handler \<Rightarrow> ResponseWriter \<Rightarrow> request \<Rightarrow> string \<Rightarrow> sys \<Rightarrow> ResponseWriter \<times> sys" where
  "headObject L h w r key s =
     (let fullPath = filepathJoin (dir h) (FromSlash key) in
      case osStat (disk s) fullPath of
        Inl e \<Rightarrow> (xmlError w 404 ''NoSuchKey'' ''Object not found'', s)
      | Inr info \<Rightarrow>
          (let etag = quoted (hashSHA256 L (key @ timeString L (ModTime info)));
               w1 = hSet ''Content-Length'' (decimal (infoSize (disk s) info)) w;
               w2 = hSet ''ETag'' etag w1;
               w3 = hSet ''Last-Modified'' (formatHTTP L (ModTime info)) w2
           in (WriteHeader 200 w3, s)))"

subsection \<open>deleteObject\<close>

text \<open>
  The loop that removes empty parent directories. Nothing in it bounds the number of
  rounds, so not returning is the value \<open>None\<close>.
\<close>

partial_function (option) cleanupParents :: "string \<Rightarrow> string \<Rightarrow> fsys \<Rightarrow> fsys option" where
  "cleanupParents stop d fs =
     (if d \<noteq> stop then
        (case osReadDir fs d of
           Inr (e # es) \<Rightarrow> Some fs
         | _ \<Rightarrow> cleanupParents stop (filepathDir d)
                  (case osRemove d fs of Inl e \<Rightarrow> fs | Inr fs' \<Rightarrow> fs'))
      else Some fs)"

definition deleteObject ::
  "stdlib \<Rightarrow> Handler \<Rightarrow> ResponseWriter \<Rightarrow> request \<Rightarrow> string \<Rightarrow> sys \<Rightarrow> (ResponseWriter \<times> sys) option" where
  "deleteObject L h w r key s =
     (let fullPath = filepathJoin (dir h) (FromSlash key) in
      case (case osRemove fullPath (disk s) of
              Inl e \<Rightarrow> if e \<noteq> ENOENT then Inl e else Inr (disk s)
            | Inr fs1 \<Rightarrow> Inr fs1) of
        Inl e \<Rightarrow>
          Some (xmlError w 500 ''InternalError'' (pathError ''remove'' fullPath e), s)
      | Inr fs1 \<Rightarrow>
          (case cleanupParents (dir h) (filepathDir fullPath) fs1 of
             None \<Rightarrow> None
           | Some fs2 \<Rightarrow>
               Some (WriteHeader 204 w,
                     emit TriggerCall (emit (Log (''[s3] DELETE '' @ key)) (s\<lparr>disk := fs2\<rparr>)))))"

subsection \<open>ServeHTTP\<close>

definition cors :: "ResponseWriter \<Rightarrow> ResponseWriter" where
  "cors w =
     hSet ''Access-Control-Expose-Headers'' ''ETag, x-amz-request-id, x-amz-id-2''
       (hSet ''Access-Control-Allow-Headers'' ''*''
         (hSet ''Access-Control-Allow-Methods'' ''GET, PUT, DELETE, HEAD, POST''
           (hSet ''Access-Control-Allow-Origin'' ''*'' w)))"

definition route ::
  "stdlib \<Rightarrow> Handler \<Rightarrow> ResponseWriter \<Rightarrow> request \<Rightarrow> sys \<Rightarrow> (ResponseWriter \<times> sys) option" where
  "route L h w r s =
     (let path = TrimPrefix (URLPath r) ''/'';
          parts = SplitN2 path ''/'';
          bucketName = (case parts of b # _ \<Rightarrow> b | [] \<Rightarrow> []);
          key = (case parts of [_, k] \<Rightarrow> k | _ \<Rightarrow> [])
      in if key = [] then
           (if Method r = ''GET'' then Some (listObjectsV2 L h w r bucketName s)
            else if Method r = ''HEAD'' then
              (if bucketName = bucket h then Some (WriteHeader 200 w, s)
               else Some (xmlError w 404 ''NoSuchBucket'' ''Bucket not found'', s))
            else Some (WriteHeader 405 w, s))
         else if Method r = ''PUT'' then Some (putObject L h w r key s)
         else if Method r = ''GET'' then Some (getObject L h w r key s)
         else if Method r = ''HEAD'' then Some (headObject L h w r key s)
         else if Method r = ''DELETE'' then deleteObject L h w r key s
         else Some (WriteHeader 405 w, s))"

definition ServeHTTP ::
  "stdlib \<Rightarrow> Handler \<Rightarrow> ResponseWriter \<Rightarrow> request \<Rightarrow> sys \<Rightarrow> (ResponseWriter \<times> sys) option" where
  "ServeHTTP L h w0 r s =
     (let w = cors w0 in
      if Method r = ''OPTIONS'' then Some (WriteHeader 200 w, s)
      else if accessKey h \<noteq> [] then
        (let s1 = emit VerifyCall s in
         if \<not> sigV4Verify L r (accessKey h) (secretKey h) (region h)
         then Some (xmlError w 403 ''AccessDenied'' ''Invalid signature'', s1)
         else route L h w r s1)
      else route L h w r s)"

section \<open>Notions the properties are stated with\<close>

text \<open>At most one timer is armed, and it is the one the worker holds.\<close>

definition timerInv :: "('r, 'g) world \<Rightarrow> bool" where
  "timerInv w \<longleftrightarrow> armed w = [] \<or> (\<exists>t d. timer (gs w) = Some t \<and> armed w = [(t, d)])"



text \<open>The value of \<^verbatim>\<open>max-keys\<close> a listing request asks for, read as \<^verbatim>\<open>listObjectsV2\<close> reads it.\<close>

definition maxKeysOf :: "request \<Rightarrow> int" where
  "maxKeysOf r =
     (let v = queryGet (URLQuery r) ''max-keys''
      in if v \<noteq> [] then (case Atoi v of Some n \<Rightarrow> n | None \<Rightarrow> 1000) else 1000)"





text \<open>
  An ordinary path element, and the cleaned rooted path made of such elements.
\<close>

definition goodName :: "string \<Rightarrow> bool" where
  "goodName c = (c \<noteq> [] \<and> c \<noteq> ''.'' \<and> c \<noteq> ''..'' \<and> CHR ''/'' \<notin> set c)"

definition absPath :: "string list \<Rightarrow> string" where
  "absPath cs = CHR ''/'' # Join cs ''/''"



definition isFolder :: "errno + node \<Rightarrow> bool" where
  "isFolder x = (case x of Inr (Folder _ _) \<Rightarrow> True | _ \<Rightarrow> False)"





section \<open>Signing a request\<close>







definition specHeaderValue :: "request \<Rightarrow> string \<Rightarrow> string" where
  "specHeaderValue r h = (if h = ''host'' then Host r else TrimSpace (headerGet (Header r) h))"






definition canonicalURI :: "string \<Rightarrow> string" where
  "canonicalURI p = (if p = [] then ''/'' else p)"

section \<open>Concrete instances for the examples\<close>

text \<open>A git library on which every call succeeds and finds nothing to do, and a configuration.\<close>


definition nilLib :: "(unit, unit) gitlib" where
  "nilLib = \<lparr>gitWorktree = (\<lambda>r g. None), gitAddGlob = (\<lambda>r p g. (None, g)),
     gitStatus = (\<lambda>r g. Inr True), gitCommit = (\<lambda>r m u e t g. (None, g)),
     gitPull = (\<lambda>r b a g. (PullAlreadyUpToDate, g)), gitPush = (\<lambda>r a g. (None, g)),
     fmtMinute = (\<lambda>t. [])\<rparr>"

definition cfg0 :: Config where
  "cfg0 = \<lparr>Dir = ''/vault'', Repo = [], Branch = ''main'', User = ''Test'', Email = ''test@test.com'',
     Token = [], Debounce = 5, PullInterval = 0\<rparr>"

definition w0 :: "(unit, unit) world" where
  "w0 = start cfg0 None 0 ()"


text \<open>Handlers with and without credentials, requests, and small file systems.\<close>

definition hAuth :: Handler where
  "hAuth = NewHandler ''/data'' ''vault'' ''testkey'' ''testsecret'' ''us-east-1''"

definition hOpen :: Handler where
  "hOpen = NewHandler ''/data'' ''vault'' [] [] ''us-east-1''"

definition request0 :: "string \<Rightarrow> string \<Rightarrow> (string \<times> string list) list \<Rightarrow> string \<Rightarrow> request" where
  "request0 m p q b =
     \<lparr>Method = m, Host = ''example.com'', Header = [], URLPath = p, URLEscapedPath = p,
      URLQuery = q, Body = b\<rparr>"




definition listNegative :: request where
  "listNegative = request0 ''GET'' ''/vault'' [(''max-keys'', [''-1''])] []"

definition optionsNote :: request where
  "optionsNote = request0 ''OPTIONS'' ''/vault/notes/test.md'' [] []"







text \<open>A store with the files \<^verbatim>\<open>a.txt\<close> and \<^verbatim>\<open>sub/b.txt\<close>, and its listing.\<close>

definition dataTwo :: node where
  "dataTwo = Folder 1 [(''a.txt'', File ''alpha'' 2), (''sub'', Folder 3 [(''b.txt'', File ''beta'' 4)])]"

definition fsTwo :: fsys where
  "fsTwo = \<lparr>root = Folder 0 [(''data'', dataTwo)], cwd = [], now = 5, dirSize = 4096\<rparr>"

definition sysTwo :: sys where
  "sysTwo = \<lparr>disk = fsTwo, effects = []\<rparr>"



definition listingOf :: "string \<Rightarrow> int \<Rightarrow> ObjectInfo list \<Rightarrow> ListBucketResult" where
  "listingOf b mk rows =
     \<lparr>Xmlns = ''http://s3.amazonaws.com/doc/2006-03-01/'', Name = b, Prefix = [],
       KeyCount = int (length rows), MaxKeys = mk, IsTruncated = False, Contents = rows,
       ContinuationToken = [], NextContinuationToken = []\<rparr>"

text \<open>
  A store with the one file \<^verbatim>\<open>sub/f.txt\<close> beside another directory of the system, and the
  states a DELETE of that file takes it through when the clean-up does not stop at the
  store's root.
\<close>

definition fsSub :: fsys where
  "fsSub = \<lparr>root = Folder 0 [(''data'', Folder 1 [(''sub'', Folder 2 [(''f.txt'', File ''data'' 3)])]),
                             (''etc'', Folder 0 [(''hosts'', File ''localhost'' 0)])],
           cwd = [], now = 5, dirSize = 4096\<rparr>"

definition sysSub :: sys where
  "sysSub = \<lparr>disk = fsSub, effects = []\<rparr>"

definition fsSubEmptied :: fsys where
  "fsSubEmptied = \<lparr>root = Folder 0 [(''data'', Folder 1 [(''sub'', Folder 5 [])]),
                             (''etc'', Folder 0 [(''hosts'', File ''localhost'' 0)])],
           cwd = [], now = 5, dirSize = 4096\<rparr>"

definition fsDataEmptied :: fsys where
  "fsDataEmptied = \<lparr>root = Folder 0 [(''data'', Folder 5 []),
                             (''etc'', Folder 0 [(''hosts'', File ''localhost'' 0)])],
           cwd = [], now = 5, dirSize = 4096\<rparr>"

definition fsDataGone :: fsys where
  "fsDataGone = \<lparr>root = Folder 5 [(''etc'', Folder 0 [(''hosts'', File ''localhost'' 0)])],
           cwd = [], now = 5, dirSize = 4096\<rparr>"

definition deleteReq :: "string \<Rightarrow> request" where
  "deleteReq p = request0 ''DELETE'' p [] []"

definition hSlash :: Handler where
  "hSlash = NewHandler ''/data/'' ''vault'' [] [] ''us-east-1''"










chapter \<open>Properties\<close>

section \<open>The sync worker\<close>

lemma doSync_nil:
  "repo (gs w) = None \<Longrightarrow>
   doSync L w = Inr (w\<lparr>logged := logged w @ [''[git] syncing...'', ''[git] no repo configured, skipping sync'']\<rparr>)"
  by (simp add: doSync_def logLine_def Let_def)

lemma Trigger_frame: "repo (gs (Trigger w)) = repo (gs w)" "git (Trigger w) = git w"
   "logged (Trigger w) = logged w" "clock (Trigger w) = clock w" "debounce (gs (Trigger w)) = debounce (gs w)"
  by (simp_all add: Trigger_def afterFunc_def timerStop_def Let_def split: option.splits prod.splits)

lemma pullLocked_frame:
  "pullLocked L w = Inr w' \<Longrightarrow> gs w' = gs w \<and> clock w' = clock w \<and> armed w' = armed w \<and> nextTimer w' = nextTimer w
     \<and> (\<exists>ls. logged w' = logged w @ ls \<and> ''[git] syncing...'' \<notin> set ls)"
  by (auto simp: pullLocked_def logLine_def split: option.splits prod.splits pull_result.splits)

lemma pullLocked_some: "repo (gs w) = Some r \<Longrightarrow> \<exists>w'. pullLocked L w = Inr w'"
  by (auto simp: pullLocked_def split: option.splits prod.splits pull_result.splits)

lemma pushAfterPull_frame:
  "pushAfterPull L r w = Inr w' \<Longrightarrow> gs w' = gs w \<and> clock w' = clock w \<and> armed w' = armed w \<and> nextTimer w' = nextTimer w
     \<and> (\<exists>ls. logged w' = logged w @ ls \<and> ''[git] syncing...'' \<notin> set ls)"
  by (auto simp: pushAfterPull_def logLine_def split: if_splits sum.splits option.splits prod.splits dest!: pullLocked_frame)

lemma pushAfterPull_some: "repo (gs w) = Some r' \<Longrightarrow> \<exists>w'. pushAfterPull L r w = Inr w'"
  using pullLocked_some[of w r' L]
  by (auto simp: pushAfterPull_def split: sum.splits option.splits prod.splits)

lemma doSync_returns: "\<exists>w'. doSync L w = Inr w'"
proof (cases "repo (gs w)")
  case None
  then show ?thesis by (simp add: doSync_nil)
next
  case (Some r)
  have "\<And>g. \<exists>w'. pushAfterPull L r (logLine ''[git] syncing...'' w\<lparr>git := g\<rparr>) = Inr w'"
    using Some by (intro pushAfterPull_some[of _ r]) (simp add: logLine_def)
  then show ?thesis using Some
    by (auto simp: doSync_def Let_def logLine_def split: option.splits prod.splits sum.splits bool.splits)
qed

lemma doSync_frame:
  assumes "doSync L w = Inr w'"
  shows "gs w' = gs w \<and> clock w' = clock w \<and> armed w' = armed w \<and> nextTimer w' = nextTimer w
     \<and> syncRuns w' = Suc (syncRuns w)"
proof (cases "repo (gs w)")
  case None
  then show ?thesis using assms by (auto simp: doSync_nil syncRuns_def)
next
  case (Some r)
  show ?thesis using assms Some
    by (auto simp: doSync_def Let_def logLine_def syncRuns_def
        split: option.splits prod.splits sum.splits bool.splits dest!: pushAfterPull_frame)
qed


lemma Trigger_arms:
  "timerInv w \<Longrightarrow> \<exists>t. armed (Trigger w) = [(t, clock w + debounce (gs w))] \<and> timer (gs (Trigger w)) = Some t"
  by (auto simp: timerInv_def Trigger_def afterFunc_def timerStop_def Let_def split: option.splits)

lemma Trigger_syncRuns: "syncRuns (Trigger w) = syncRuns w"
  by (simp add: syncRuns_def Trigger_frame)

lemma Trigger_inv: "timerInv w \<Longrightarrow> timerInv (Trigger w)"
  using Trigger_arms[of w] by (auto simp: timerInv_def)

lemma elapse_not_due:
  "armed w = [(t, dl)] \<Longrightarrow> clock w + int d < dl \<Longrightarrow> elapse L d w = Inr (w\<lparr>clock := clock w + int d\<rparr>)"
  by (simp add: elapse_def Let_def)

lemma elapse_due:
  assumes "armed w = [(t, dl)]" "dl \<le> clock w + int d"
  shows "\<exists>w'. elapse L d w = Inr w' \<and> armed w' = [] \<and> syncRuns w' = Suc (syncRuns w) \<and> gs w' = gs w"
proof -
  let ?w1 = "timerStop t (w\<lparr>clock := clock w + int d\<rparr>)"
  obtain w' where d: "doSync L ?w1 = Inr w'" using doSync_returns by blast
  from doSync_frame[OF d] have "armed w' = []" "syncRuns w' = Suc (syncRuns w)" "gs w' = gs w"
    using assms by (simp_all add: timerStop_def syncRuns_def)
  then show ?thesis using assms d by (simp add: elapse_def Let_def)
qed

lemma elapse_idle: "armed w = [] \<Longrightarrow> elapse L d w = Inr (w\<lparr>clock := clock w + int d\<rparr>)"
  by (simp add: elapse_def Let_def)

lemma elapse_inv:
  assumes "timerInv w"
  shows "\<exists>w'. elapse L d w = Inr w' \<and> timerInv w'"
proof (cases "armed w")
  case Nil
  then show ?thesis by (simp add: elapse_idle timerInv_def)
next
  case (Cons e es)
  then obtain t dl where a: "armed w = [(t, dl)]" and tm: "timer (gs w) = Some t"
    using assms by (auto simp: timerInv_def)
  show ?thesis
  proof (cases "dl \<le> clock w + int d")
    case True
    from elapse_due[OF a True, of L] show ?thesis by (auto simp: timerInv_def)
  next
    case False
    then show ?thesis using elapse_not_due[OF a, of d L] a tm by (simp add: timerInv_def)
  qed
qed

lemma doSync_inv:
  assumes "timerInv w"
  shows "\<exists>w'. doSync L w = Inr w' \<and> timerInv w'"
proof -
  obtain w' where d: "doSync L w = Inr w'" using doSync_returns by blast
  from doSync_frame[OF d] assms show ?thesis using d by (simp add: timerInv_def)
qed

lemma step_inv: "timerInv w \<Longrightarrow> \<exists>w'. step L e w = Inr w' \<and> timerInv w'"
  by (cases e) (simp_all add: Trigger_inv elapse_inv doSync_inv)

lemma run_inv: "timerInv w \<Longrightarrow> \<exists>w'. run L es w = Inr w' \<and> timerInv w'"
proof (induction es arbitrary: w)
  case Nil
  then show ?case by simp
next
  case (Cons e es)
  from step_inv[OF Cons.prems, of L e] obtain w1 where s: "step L e w = Inr w1" "timerInv w1" by blast
  from Cons.IH[OF s(2)] show ?case using s(1) by simp
qed

lemma start_inv: "timerInv (start cfg r t g)"
  by (simp add: timerInv_def start_def)

lemma run_append:
  "run L (xs @ ys) w = (case run L xs w of Inl p \<Rightarrow> Inl p | Inr w' \<Rightarrow> run L ys w')"
  by (induction xs arbitrary: w) (auto split: sum.splits)

lemma burst_Cons: "burst (d # ds) = CallTrigger # Elapse d # burst ds"
  by (simp add: burst_def)

lemma run_burst:
  assumes "timerInv w" "\<forall>d\<in>set gaps. int d < debounce (gs w)"
  shows "\<exists>w' t. run L (burst gaps) w = Inr w' \<and> armed w' = [(t, clock w' + debounce (gs w'))]
           \<and> timer (gs w') = Some t \<and> syncRuns w' = syncRuns w \<and> debounce (gs w') = debounce (gs w)"
  using assms
proof (induction gaps arbitrary: w)
  case Nil
  from Trigger_arms[OF Nil(1)] show ?case
    by (auto simp: burst_def Trigger_frame Trigger_syncRuns)
next
  case (Cons d ds)
  from Trigger_arms[OF Cons.prems(1)] obtain t where
    a: "armed (Trigger w) = [(t, clock w + debounce (gs w))]" and tm: "timer (gs (Trigger w)) = Some t" by blast
  have lt: "clock (Trigger w) + int d < clock w + debounce (gs w)"
    using Cons.prems(2) by (simp add: Trigger_frame)
  let ?w2 = "(Trigger w)\<lparr>clock := clock (Trigger w) + int d\<rparr>"
  have e: "elapse L d (Trigger w) = Inr ?w2" using elapse_not_due[OF a lt] .
  have inv2: "timerInv ?w2" using a tm by (simp add: timerInv_def)
  have g2: "\<forall>d\<in>set ds. int d < debounce (gs ?w2)" using Cons.prems(2) by (simp add: Trigger_frame)
  from Cons.IH[OF inv2 g2] obtain w' t' where
    r: "run L (burst ds) ?w2 = Inr w'" "armed w' = [(t', clock w' + debounce (gs w'))]"
       "timer (gs w') = Some t'" "syncRuns w' = syncRuns ?w2" "debounce (gs w') = debounce (gs ?w2)" by blast
  have "syncRuns ?w2 = syncRuns w" by (simp add: syncRuns_def Trigger_frame)
  then show ?case using r e by (simp add: burst_Cons Trigger_frame)
qed

lemma burst_then_quiet:
  assumes "timerInv w" "\<forall>d\<in>set gaps. int d < debounce (gs w)" "debounce (gs w) \<le> int e"
  shows "\<exists>w'. run L (burst gaps @ [Elapse e]) w = Inr w' \<and> syncRuns w' = Suc (syncRuns w) \<and> armed w' = []"
proof -
  from run_burst[OF assms(1,2), of L] obtain w1 t where
    r: "run L (burst gaps) w = Inr w1" "armed w1 = [(t, clock w1 + debounce (gs w1))]"
       "syncRuns w1 = syncRuns w" "debounce (gs w1) = debounce (gs w)" by blast
  have due: "clock w1 + debounce (gs w1) \<le> clock w1 + int e" using assms(3) r(4) by simp
  from elapse_due[OF r(2) due, of L] obtain w' where
    "elapse L e w1 = Inr w'" "armed w' = []" "syncRuns w' = Suc (syncRuns w1)" by blast
  then show ?thesis using r by (simp add: run_append)
qed

text \<open>
  C4. In every state the worker reaches from its construction (by calls of \<^verbatim>\<open>Trigger\<close>,
  executions of \<^verbatim>\<open>doSync\<close> and time passing) at most one timer is armed, and right
  after a \<^verbatim>\<open>Trigger()\<close> exactly one is. A burst of \<open>N = length gaps + 1\<close> calls of
  \<^verbatim>\<open>Trigger()\<close>, each less than \<^verbatim>\<open>debounce\<close> after the one before, followed by a quiet
  period of at least \<^verbatim>\<open>debounce\<close>, runs \<^verbatim>\<open>doSync\<close> exactly once and leaves no timer
  armed.
\<close>

theorem Trigger_debounce:
  assumes "run L pre (start cfg r t0 g) = Inr w"
  shows "length (armed w) \<le> 1
     \<and> length (armed (Trigger w)) = 1
     \<and> ((\<forall>d\<in>set gaps. int d < debounce (gs w)) \<and> debounce (gs w) \<le> int e \<longrightarrow>
          (\<exists>w'. run L (burst gaps @ [Elapse e]) w = Inr w' \<and> syncRuns w' = syncRuns w + 1 \<and> armed w' = []))"
proof -
  from run_inv[OF start_inv, of L pre cfg r t0 g] assms have inv: "timerInv w" by auto
  have 1: "length (armed w) \<le> 1" using inv by (auto simp: timerInv_def)
  have 2: "length (armed (Trigger w)) = 1" using Trigger_arms[OF inv] by auto
  show ?thesis using 1 2 burst_then_quiet[OF inv, of gaps e L] by auto
qed

theorem Trigger_debounce_witness:
  "run nilLib [] (start cfg0 None 0 ()) = Inr w0
   \<and> int 4 < debounce (gs w0) \<and> debounce (gs w0) \<le> int 5
   \<and> length (armed w0) \<le> 1 \<and> length (armed (Trigger w0)) = 1
   \<and> (\<exists>w'. run nilLib (burst [1, 2, 4] @ [Elapse 5]) w0 = Inr w'
        \<and> syncRuns w' = syncRuns w0 + 1 \<and> armed w' = [])"
proof -
  have h: "run nilLib [] (start cfg0 None 0 ()) = Inr w0" by (simp add: w0_def)
  have g: "\<forall>d\<in>set [1, 2, 4]. int d < debounce (gs w0)" "debounce (gs w0) \<le> int 5"
    by (simp_all add: w0_def start_def New_def cfg0_def)
  from Trigger_debounce [OF h, of "[1, 2, 4]" 5] g h show ?thesis by simp
qed

lemma fireDue_nil:
  "repo (gs w) = None \<Longrightarrow> \<exists>w'. fireDue L es w = Inr w' \<and> repo (gs w') = None \<and> git w' = git w"
proof (induction es arbitrary: w)
  case Nil
  then show ?case by simp
next
  case (Cons e es)
  show ?case
  proof (cases "snd e \<le> clock w")
    case True
    let ?w1 = "timerStop (fst e) w"
    have r1: "repo (gs ?w1) = None" using Cons.prems by (simp add: timerStop_def)
    let ?w2 = "?w1\<lparr>logged := logged ?w1 @
                 [''[git] syncing...'', ''[git] no repo configured, skipping sync'']\<rparr>"
    have d: "doSync L ?w1 = Inr ?w2" using doSync_nil[OF r1] .
    have r2: "repo (gs ?w2) = None" using r1 by simp
    from Cons.IH[OF r2] obtain w' where
      "fireDue L es ?w2 = Inr w'" "repo (gs w') = None" "git w' = git ?w2" by blast
    then show ?thesis using True d by (simp add: timerStop_def)
  next
    case False
    then show ?thesis using Cons.IH[OF Cons.prems] by simp
  qed
qed

lemma step_nil:
  assumes r: "repo (gs w) = None"
  shows "\<exists>w'. step L e w = Inr w' \<and> repo (gs w') = None \<and> git w' = git w"
proof (cases e)
  case CallTrigger
  then show ?thesis using r by (simp add: Trigger_frame)
next
  case (Elapse d)
  let ?w = "w\<lparr>clock := clock w + int d\<rparr>"
  have "repo (gs ?w) = None" using r by simp
  from fireDue_nil[OF this, of L "armed ?w"] show ?thesis
    using Elapse by (simp add: elapse_def Let_def)
next
  case CallDoSync
  show ?thesis using CallDoSync doSync_nil[OF r, of L] r by simp
qed

lemma run_nil:
  "repo (gs w) = None \<Longrightarrow> \<exists>w'. run L es w = Inr w' \<and> repo (gs w') = None \<and> git w' = git w"
proof (induction es arbitrary: w)
  case Nil
  then show ?case by simp
next
  case (Cons e es)
  from step_nil[OF Cons.prems, of L e] obtain w1 where
    s: "step L e w = Inr w1" "repo (gs w1) = None" "git w1 = git w" by blast
  from Cons.IH[OF s(2)] obtain w' where
    "run L es w1 = Inr w'" "repo (gs w') = None" "git w' = git w1" by blast
  then show ?case using s by simp
qed

text \<open>
  C9. A worker whose repository handle is nil never panics: \<^verbatim>\<open>doSync\<close> writes its two
  log lines and returns with everything else as it was, and any sequence of
  \<^verbatim>\<open>Trigger()\<close> calls, \<^verbatim>\<open>doSync()\<close> calls and timers firing returns normally with the git
  state untouched and the handle still nil.
\<close>

theorem nil_repo_is_logged_noop:
  assumes "repo (gs w) = None"
  shows "doSync L w =
           Inr (w\<lparr>logged := logged w @
                  [''[git] syncing...'', ''[git] no repo configured, skipping sync'']\<rparr>)
     \<and> (\<exists>w'. run L es w = Inr w' \<and> repo (gs w') = None \<and> git w' = git w)"
  using assms doSync_nil[OF assms, of L] run_nil[OF assms, of L es] by simp

theorem nil_repo_is_logged_noop_witness:
  "repo (gs w0) = None
   \<and> doSync nilLib w0 =
       Inr (w0\<lparr>logged := logged w0 @
              [''[git] syncing...'', ''[git] no repo configured, skipping sync'']\<rparr>)
   \<and> (\<exists>w'. run nilLib [CallDoSync, CallTrigger, Elapse 7] w0 = Inr w'
         \<and> repo (gs w') = None \<and> git w' = git w0)"
proof -
  have h: "repo (gs w0) = None"
    by (simp add: w0_def start_def New_def)
  from nil_repo_is_logged_noop [OF h, of nilLib "[CallDoSync, CallTrigger, Elapse 7]"] h
  show ?thesis by blast
qed

section \<open>The handler\<close>

subsection \<open>Response writer and headers\<close>

lemma wStatus_hSet [simp]: "wStatus (hSet k v w) = wStatus w"
  by (simp add: hSet_def)

lemma wBody_hSet [simp]: "wBody (hSet k v w) = wBody w"
  by (simp add: hSet_def)

lemma wHeader_hSet [simp]: "wHeader (hSet k v w) = headerSet k v (wHeader w)"
  by (simp add: hSet_def)






lemma cors_newRecorder:
  "cors newRecorder =
     \<lparr>wHeader = [(''Access-Control-Allow-Origin'', [''*'']),
                 (''Access-Control-Allow-Methods'', [''GET, PUT, DELETE, HEAD, POST'']),
                 (''Access-Control-Allow-Headers'', [''*'']),
                 (''Access-Control-Expose-Headers'', [''ETag, x-amz-request-id, x-amz-id-2''])],
       wStatus = None, wBody = []\<rparr>"
  by code_simp

subsection \<open>Hex digests\<close>








subsection \<open>OPTIONS\<close>

text \<open>
  C10. A request with method \<^verbatim>\<open>OPTIONS\<close>, whatever its path and whatever the handler's
  credentials, is answered with status 200, the four CORS headers and no body; the state
  is returned as it was, so no call of \<^verbatim>\<open>sigV4Verify\<close> (nor any other effect) is recorded.
\<close>

theorem options_bypasses_auth:
  assumes "Method r = ''OPTIONS''"
  shows "ServeHTTP L h newRecorder r s =
           Some (\<lparr>wHeader =
                    [(''Access-Control-Allow-Origin'', [''*'']),
                     (''Access-Control-Allow-Methods'', [''GET, PUT, DELETE, HEAD, POST'']),
                     (''Access-Control-Allow-Headers'', [''*'']),
                     (''Access-Control-Expose-Headers'', [''ETag, x-amz-request-id, x-amz-id-2''])],
                   wStatus = Some 200, wBody = []\<rparr>, s)"
  using assms by (simp add: ServeHTTP_def Let_def cors_newRecorder WriteHeader_def)

theorem options_bypasses_auth_witness:
  "\<forall>L. Method optionsNote = ''OPTIONS'' \<and> accessKey hAuth \<noteq> []
     \<and> ServeHTTP L hAuth newRecorder optionsNote sysTwo =
           Some (\<lparr>wHeader =
                    [(''Access-Control-Allow-Origin'', [''*'']),
                     (''Access-Control-Allow-Methods'', [''GET, PUT, DELETE, HEAD, POST'']),
                     (''Access-Control-Allow-Headers'', [''*'']),
                     (''Access-Control-Expose-Headers'', [''ETag, x-amz-request-id, x-amz-id-2''])],
                   wStatus = Some 200, wBody = []\<rparr>, sysTwo)"
proof -
  have m: "Method optionsNote = ''OPTIONS''" by (simp add: optionsNote_def request0_def)
  have a: "accessKey hAuth \<noteq> []" by (simp add: hAuth_def NewHandler_def)
  show ?thesis using options_bypasses_auth [OF m] m a by blast
qed

subsection \<open>Listing\<close>

lemma visitFile_bound:
  "visitFile L fs prefix' maxKeys rel info objs = (b, objs') \<Longrightarrow>
   int (length objs') \<le> max (int (length objs)) maxKeys"
  by (auto simp: visitFile_def Let_def split: if_splits)

lemma walk_bound:
  "(walk L fs prefix' maxKeys rel name n objs = (b, objs') \<longrightarrow>
      int (length objs') \<le> max (int (length objs)) maxKeys)"
  "(walkEntries L fs prefix' maxKeys rel es objs = (b, objs') \<longrightarrow>
      int (length objs') \<le> max (int (length objs)) maxKeys)"
proof (induction L fs prefix' maxKeys rel name n objs and L fs prefix' maxKeys rel es objs
       arbitrary: b objs' and b objs' rule: walk_walkEntries.induct)
  case (1 L fs prefix' maxKeys rel name b m objects)
  then show ?case by (auto dest: visitFile_bound)
next
  case (2 L fs prefix' maxKeys rel name m es objects)
  then show ?case by (auto split: if_splits)
next
  case (3 L fs prefix' maxKeys rel objects)
  then show ?case by auto
next
  case (4 L fs prefix' maxKeys rel e es objects)
  show ?case
  proof
    assume a: "walkEntries L fs prefix' maxKeys rel (e # es) objects = (b, objs')"
    obtain b1 o1 where
      w: "walk L fs prefix' maxKeys (rel @ [fst e]) (fst e) (snd e) objects = (b1, o1)"
      by (cases "walk L fs prefix' maxKeys (rel @ [fst e]) (fst e) (snd e) objects")
    have l1: "int (length o1) \<le> max (int (length objects)) maxKeys" using 4(1) w by blast
    show "int (length objs') \<le> max (int (length objects)) maxKeys"
    proof (cases b1)
      case True
      then show ?thesis using a w l1 by simp
    next
      case False
      then have "walkEntries L fs prefix' maxKeys rel es o1 = (b, objs')" using a w by simp
      then have "int (length objs') \<le> max (int (length o1)) maxKeys"
        using 4(2) w False by simp
      then show ?thesis using l1 by linarith
    qed
  qed
qed

lemma Walk_bound: "int (length (Walk L fs rootPath prefix' maxKeys)) \<le> max 0 maxKeys"
proof (cases "osStat fs rootPath")
  case (Inl e)
  then show ?thesis by (simp add: Walk_def)
next
  case (Inr info)
  obtain b objs where
    w: "walk L fs prefix' maxKeys [] (filepathBase rootPath) info [] = (b, objs)"
    by (cases "walk L fs prefix' maxKeys [] (filepathBase rootPath) info []")
  from walk_bound(1)[of L fs prefix' maxKeys "[]" "filepathBase rootPath" info "[]" b objs] w
  show ?thesis using Inr by (simp add: Walk_def)
qed

lemma listObjectsV2_result:
  "listObjectsV2 L h w r b s =
     (Write (ListXML
        \<lparr>Xmlns = ''http://s3.amazonaws.com/doc/2006-03-01/'', Name = b,
          Prefix = queryGet (URLQuery r) ''prefix'',
          KeyCount = int (length (Walk L (disk s) (dir h) (queryGet (URLQuery r) ''prefix'')
                                   (maxKeysOf r))),
          MaxKeys = maxKeysOf r, IsTruncated = False,
          Contents = Walk L (disk s) (dir h) (queryGet (URLQuery r) ''prefix'') (maxKeysOf r),
          ContinuationToken = [], NextContinuationToken = []\<rparr>)
        (WriteHeader 200 (hSet ''Content-Type'' ''application/xml'' w)), s)"
  by (simp add: listObjectsV2_def Let_def maxKeysOf_def)

text \<open>
  C7, as the code has it. A listing answers with one \<^verbatim>\<open>ListBucketResult\<close> whose
  \<^verbatim>\<open>Contents\<close> hold at most \<^verbatim>\<open>maxKeys\<close> rows when \<^verbatim>\<open>maxKeys\<close> is not negative and none when
  it is negative, whose \<^verbatim>\<open>IsTruncated\<close> is false and whose continuation tokens are empty
  (\<^verbatim>\<open>omitempty\<close>: not emitted).
\<close>

theorem listing_is_capped_never_truncated:
  "\<exists>res. listObjectsV2 L h w r b s =
            (Write (ListXML res) (WriteHeader 200 (hSet ''Content-Type'' ''application/xml'' w)), s)
     \<and> int (length (Contents res)) \<le> max 0 (MaxKeys res)
     \<and> KeyCount res = int (length (Contents res))
     \<and> MaxKeys res = maxKeysOf r
     \<and> IsTruncated res = False
     \<and> ContinuationToken res = [] \<and> NextContinuationToken res = []"
proof -
  let ?prefix' = "queryGet (URLQuery r) ''prefix''"
  let ?objects = "Walk L (disk s) (dir h) ?prefix' (maxKeysOf r)"
  let ?res = "\<lparr>Xmlns = ''http://s3.amazonaws.com/doc/2006-03-01/'', Name = b,
               Prefix = ?prefix', KeyCount = int (length ?objects), MaxKeys = maxKeysOf r,
               IsTruncated = False, Contents = ?objects,
               ContinuationToken = [], NextContinuationToken = []\<rparr>"
  have "listObjectsV2 L h w r b s =
          (Write (ListXML ?res) (WriteHeader 200 (hSet ''Content-Type'' ''application/xml'' w)), s)"
    by (rule listObjectsV2_result)
  moreover have "int (length (Contents ?res)) \<le> max 0 (MaxKeys ?res)"
    using Walk_bound[of L "disk s" "dir h" ?prefix' "maxKeysOf r"] by simp
  ultimately show ?thesis by (intro exI[of _ ?res]) simp
qed

lemma ex_stat_data:
  "osStat fsTwo ''/data'' = Inr dataTwo"
  "filepathBase ''/data'' = ''data''"
  "filepathJoin ''/data'' (FromSlash ''a.txt'') = ''/data/a.txt''"
  "osStat fsTwo ''/data/a.txt'' = Inr (File ''alpha'' 2)"
  by code_simp+

lemma ex_Atoi: "Atoi ''-1'' = Some (- 1)"
  by code_simp

text \<open>
  C7 as stated fails for a negative \<^verbatim>\<open>max-keys\<close>: the listing for \<^verbatim>\<open>max-keys=-1\<close> reports
  \<^verbatim>\<open>MaxKeys\<close> \<open>-1\<close> and has no rows, and zero rows are more than \<open>-1\<close>.
\<close>

theorem listing_negative_max_keys:
  "\<forall>L. listObjectsV2 L hOpen newRecorder listNegative ''vault'' sysTwo =
          (Write (ListXML (listingOf ''vault'' (- 1) []))
             (WriteHeader 200 (hSet ''Content-Type'' ''application/xml'' newRecorder)), sysTwo)
     \<and> \<not> int (length (Contents (listingOf ''vault'' (- 1) []))) \<le> MaxKeys (listingOf ''vault'' (- 1) [])"
  by (simp add: listObjectsV2_result maxKeysOf_def listNegative_def request0_def queryGet_def
      ex_Atoi Walk_def hOpen_def NewHandler_def sysTwo_def ex_stat_data dataTwo_def
      visitFile_def HasPrefix_def listingOf_def)

subsection \<open>ETags of HEAD and LIST\<close>










subsection \<open>PUT, then GET\<close>




lemma resolve_root_upd [simp]: "resolve (fs\<lparr>root := n\<rparr>) p = resolve fs p"
  by (simp add: resolve_def)









section \<open>Paths and the file system\<close>

subsection \<open>Cleaned rooted paths\<close>

lemma Cut_slash_at: "CHR ''/'' \<notin> set a \<Longrightarrow> Cut (a @ CHR ''/'' # b) ''/'' = Some (a, b)"
  by (induction a) (auto simp: HasPrefix_def)

lemma Cut_slash_none: "CHR ''/'' \<notin> set a \<Longrightarrow> Cut a ''/'' = None"
  by (induction a) (auto simp: HasPrefix_def)

lemma Split_slash_Cons:
  "CHR ''/'' \<notin> set a \<Longrightarrow> Split (a @ CHR ''/'' # b) ''/'' = a # Split b ''/''"
  by (subst Split.simps) (simp add: Cut_slash_at)

lemma Split_slash_single: "CHR ''/'' \<notin> set a \<Longrightarrow> Split a ''/'' = [a]"
  by (subst Split.simps) (simp add: Cut_slash_none)

lemma Split_Join_then:
  "cs \<noteq> [] \<Longrightarrow> \<forall>c\<in>set cs. CHR ''/'' \<notin> set c \<Longrightarrow>
   Split (Join cs ''/'' @ CHR ''/'' # b) ''/'' = cs @ Split b ''/''"
proof (induction cs "''/''" rule: Join.induct)
  case 1
  then show ?case by simp
next
  case (2 x)
  then show ?case by (simp add: Split_slash_Cons)
next
  case (3 x y ys)
  then show ?case by (simp add: Split_slash_Cons)
qed

lemma Split_Join:
  "cs \<noteq> [] \<Longrightarrow> \<forall>c\<in>set cs. CHR ''/'' \<notin> set c \<Longrightarrow> Split (Join cs ''/'') ''/'' = cs"
proof (induction cs "''/''" rule: Join.induct)
  case 1
  then show ?case by simp
next
  case (2 x)
  then show ?case by (simp add: Split_slash_single)
next
  case (3 x y ys)
  then show ?case by (simp add: Split_slash_Cons)
qed


lemma goodName_slash: "list_all goodName cs \<Longrightarrow> \<forall>c\<in>set cs. CHR ''/'' \<notin> set c"
  by (simp add: list_all_iff goodName_def)

lemma Split_absPath:
  "list_all goodName cs \<Longrightarrow> Split (absPath cs) ''/'' = [] # (if cs = [] then [[]] else cs)"
  using Split_slash_Cons[of "[]" "Join cs ''/''"] Split_Join[of cs] goodName_slash[of cs]
  by (auto simp: absPath_def Split_slash_single)


lemma foldl_cleanStep_good:
  "list_all goodName cs \<Longrightarrow> foldl (cleanStep r) st cs = rev cs @ st"
  by (induction cs arbitrary: st) (simp_all add: cleanStep_def goodName_def)

lemma cleanStep_empty [simp]: "cleanStep r st [] = st"
  by (simp add: cleanStep_def)

lemma isRooted_absPath [simp]: "isRooted (absPath cs)"
  by (simp add: isRooted_def absPath_def)

lemma absPath_nonempty [simp]: "absPath cs \<noteq> []"
  by (simp add: absPath_def)

lemma Clean_absPath: "list_all goodName cs \<Longrightarrow> Clean (absPath cs) = absPath cs"
  by (simp add: Clean_def Split_absPath foldl_cleanStep_good Let_def) (simp add: absPath_def)







text \<open>A key of ordinary names joins to the path below the directory.\<close>

lemma filepathJoin_absPath:
  assumes "list_all goodName (ds @ ks)" "ks \<noteq> []"
  shows "filepathJoin (absPath ds) (FromSlash (Join ks ''/'')) = absPath (ds @ ks)"
proof -
  have gk: "\<forall>c\<in>set ks. CHR ''/'' \<notin> set c" and gd: "list_all goodName ds" and gks: "list_all goodName ks"
    using assms(1) goodName_slash[of ks] by simp_all
  have s: "Split (absPath ds @ ''/'' @ Join ks ''/'') ''/'' = [] # (if ds = [] then [[]] else ds) @ ks"
  proof (cases "ds = []")
    case True
    have "Split (CHR ''/'' # CHR ''/'' # Join ks ''/'') ''/'' = [] # [] # Split (Join ks ''/'') ''/''"
      using Split_slash_Cons[of "[]" "CHR ''/'' # Join ks ''/''"] Split_slash_Cons[of "[]" "Join ks ''/''"]
      by simp
    then show ?thesis using True Split_Join[OF assms(2) gk] by (simp add: absPath_def)
  next
    case False
    have "Split (CHR ''/'' # (Join ds ''/'' @ CHR ''/'' # Join ks ''/'')) ''/'' =
            [] # ds @ Split (Join ks ''/'') ''/''"
      using Split_slash_Cons[of "[]" "Join ds ''/'' @ CHR ''/'' # Join ks ''/''"]
        Split_Join_then[OF False goodName_slash[OF gd], of "Join ks ''/''"] by simp
    then show ?thesis using False Split_Join[OF assms(2) gk] by (simp add: absPath_def)
  qed
  have r: "isRooted (absPath ds @ ''/'' @ Join ks ''/'')" by (simp add: isRooted_def absPath_def)
  have f: "foldl (cleanStep True) [] ([] # (if ds = [] then [[]] else ds) @ ks) = rev (ds @ ks)"
    using foldl_cleanStep_good[OF assms(1), of True "[]"] gd
    by (cases "ds = []") (simp_all add: foldl_cleanStep_good)
  show ?thesis
    using s r f by (simp add: filepathJoin_def FromSlash_def Clean_def Let_def) (simp add: absPath_def)
qed

subsection \<open>Looking up after a change\<close>



subsection \<open>What os.Remove answers\<close>




subsection \<open>What is where after os.Remove\<close>





subsection \<open>The clean-up loop of deleteObject\<close>











subsection \<open>Changes below a directory\<close>















section \<open>DELETE and keys that leave the store\<close>




lemma ex_route_sub:
  "TrimPrefix ''/vault/sub/f.txt'' ''/'' = ''vault/sub/f.txt''"
  "SplitN2 ''vault/sub/f.txt'' ''/'' = [''vault'', ''sub/f.txt'']"
  "TrimPrefix ''/vault/sub'' ''/'' = ''vault/sub''"
  "SplitN2 ''vault/sub'' ''/'' = [''vault'', ''sub'']"
  by code_simp+

lemma ex_slash_paths:
  "filepathJoin ''/data/'' (FromSlash ''sub/f.txt'') = ''/data/sub/f.txt''"
  "filepathDir ''/data/sub/f.txt'' = ''/data/sub''"
  "filepathDir ''/data/sub'' = ''/data''"
  "filepathDir ''/data'' = ''/''"
  "filepathJoin ''/data'' (FromSlash ''sub'') = ''/data/sub''"
  by code_simp+

lemma ex_slash_fs:
  "osRemove ''/data/sub/f.txt'' fsSub = Inr fsSubEmptied"
  "osReadDir fsSubEmptied ''/data/sub'' = Inr []"
  "osRemove ''/data/sub'' fsSubEmptied = Inr fsDataEmptied"
  "osReadDir fsDataEmptied ''/data'' = Inr []"
  "osRemove ''/data'' fsDataEmptied = Inr fsDataGone"
  "osReadDir fsDataGone ''/'' = Inr [''etc'']"
  "osStat fsSub ''/data/'' = Inr (Folder 1 [(''sub'', Folder 2 [(''f.txt'', File ''data'' 3)])])"
  "osStat fsDataGone ''/data/'' = Inl ENOENT"
  "osRemove ''/data/sub'' fsSub = Inl ENOTEMPTY"
  by code_simp+

lemma ex_slash_loop: "cleanupParents ''/data/'' ''/data/sub'' fsSubEmptied = Some fsDataGone"
  apply (subst cleanupParents.simps, simp add: ex_slash_fs ex_slash_paths)
  apply (subst cleanupParents.simps, simp add: ex_slash_fs ex_slash_paths)
  apply (subst cleanupParents.simps, simp add: ex_slash_fs ex_slash_paths)
  done

text \<open>
  C6 at a handler whose \<^verbatim>\<open>dir\<close> is \<^verbatim>\<open>/data/\<close>, with a trailing slash. The loop compares the
  cleaned parent path with \<^verbatim>\<open>s.dir\<close> as it was given, so it does not stop at \<^verbatim>\<open>/data\<close>:
  after \<^verbatim>\<open>DELETE /vault/sub/f.txt\<close> it removes \<^verbatim>\<open>/data/sub\<close> and then the root directory
  \<^verbatim>\<open>/data\<close> of the store itself.
\<close>

theorem delete_removes_unclean_root:
  "\<forall>L. ServeHTTP L hSlash newRecorder (deleteReq ''/vault/sub/f.txt'') sysSub =
          Some (WriteHeader 204 (cors newRecorder),
                \<lparr>disk = fsDataGone, effects = [Log ''[s3] DELETE sub/f.txt'', TriggerCall]\<rparr>)
     \<and> isFolder (osStat (disk sysSub) (dir hSlash))
     \<and> osStat fsDataGone (dir hSlash) = Inl ENOENT"
  by (simp add: ServeHTTP_def route_def Let_def deleteReq_def request0_def hSlash_def NewHandler_def
      ex_route_sub deleteObject_def ex_slash_paths sysSub_def ex_slash_fs ex_slash_loop emit_def
      isFolder_def)












section \<open>Signature verification\<close>

subsection \<open>Cutting and splitting at a separator\<close>













subsection \<open>The canonical request of the code and of the description\<close>















subsection \<open>Reading the header\<close>










subsection \<open>Hex encoding is injective\<close>










subsection \<open>Any other signature of the same length\<close>








subsection \<open>What a change of the request does to the canonical request\<close>

lemma specHeaderValue_Method [simp]: "specHeaderValue (r\<lparr>Method := m\<rparr>) h = specHeaderValue r h"
  by (simp add: specHeaderValue_def)

lemma specHeaderValue_Path [simp]:
  "specHeaderValue (r\<lparr>URLEscapedPath := p\<rparr>) h = specHeaderValue r h"
  by (simp add: specHeaderValue_def)





subsection \<open>The signed request of the test\<close>

















end
